theory Spec2Isabelle
  imports Main "HOL-Library.Sublist"
begin

section \<open>Strings: the boost::algorithm helpers the source calls\<close>

text \<open>
  \<open>std::string\<close> is a byte string, modelled as \<open>string\<close>. The classification used by
  \<open>boost::algorithm::trim_all\<close> is \<open>std::isspace\<close> in the classic locale: space, tab,
  line feed, vertical tab, form feed and carriage return.
\<close>

definition is_space :: "char \<Rightarrow> bool" where
  "is_space c \<longleftrightarrow> c = CHR '' '' \<or> c = CHR 0x09 \<or> c = CHR 0x0A \<or> c = CHR 0x0B
     \<or> c = CHR 0x0C \<or> c = CHR 0x0D"

definition dquote :: char where
  "dquote = CHR 0x22"

definition squote :: char where
  "squote = CHR 0x27"

text \<open>\<open>boost::algorithm::trim\<close>: drop the spaces at both ends.\<close>

definition trim :: "string \<Rightarrow> string" where
  "trim s = rev (dropWhile is_space (rev (dropWhile is_space s)))"

text \<open>
  The second step of \<open>trim_all\<close>: every maximal run of spaces is replaced by its first
  character. The flag says whether the previous character was a space.
\<close>

fun compress_spaces :: "bool \<Rightarrow> string \<Rightarrow> string" where
  "compress_spaces prev [] = []"
| "compress_spaces prev (c # cs) =
     (if is_space c
      then (if prev then compress_spaces True cs else c # compress_spaces True cs)
      else c # compress_spaces False cs)"

definition trim_all :: "string \<Rightarrow> string" where
  "trim_all s = compress_spaces False (trim s)"

text \<open>\<open>boost::algorithm::replace_all(arg, "\"", "")\<close>: delete every double quote.\<close>

definition remove_quotes :: "string \<Rightarrow> string" where
  "remove_quotes s = filter (\<lambda>c. c \<noteq> dquote) s"

text \<open>\<open>boost::algorithm::replace_first\<close>: the leftmost occurrence of the pattern is replaced.\<close>

fun replace_first :: "string \<Rightarrow> string \<Rightarrow> string \<Rightarrow> string" where
  "replace_first [] pat rep = (if pat = [] then rep else [])"
| "replace_first (c # cs) pat rep =
     (if prefix pat (c # cs) then rep @ drop (length pat) (c # cs)
      else c # replace_first cs pat rep)"

text \<open>\<open>line.find(pat) != std::string::npos\<close>.\<close>

fun contains :: "string \<Rightarrow> string \<Rightarrow> bool" where
  "contains [] pat = (pat = [])"
| "contains (c # cs) pat = (prefix pat (c # cs) \<or> contains cs pat)"

text \<open>\<open>boost::algorithm::starts_with\<close>.\<close>

definition starts_with :: "string \<Rightarrow> string \<Rightarrow> bool" where
  "starts_with s pat = prefix pat s"

text \<open>ASCII lower case, as \<open>std::tolower\<close> in the classic locale.\<close>

definition to_lower :: "char \<Rightarrow> char" where
  "to_lower c = (let n = (of_char c :: nat) in if 65 \<le> n \<and> n \<le> 90 then char_of (n + 32) else c)"

text \<open>\<open>boost::algorithm::icontains\<close>.\<close>

definition icontains :: "string \<Rightarrow> string \<Rightarrow> bool" where
  "icontains s pat = contains (map to_lower s) (map to_lower pat)"

text \<open>
  \<open>boost::algorithm::split(result, input, pred)\<close> with the default
  \<open>token_compress_off\<close>: every separator ends a token, adjacent separators give
  empty tokens, and the empty input gives one empty token.
\<close>

definition is_any_of :: "string \<Rightarrow> char \<Rightarrow> bool" where
  "is_any_of cs c \<longleftrightarrow> c \<in> set cs"

fun split :: "(char \<Rightarrow> bool) \<Rightarrow> string \<Rightarrow> string list" where
  "split sep [] = [[]]"
| "split sep (c # cs) =
     (if sep c then [] # split sep cs
      else (case split sep cs of [] \<Rightarrow> [[c]] | l # ls \<Rightarrow> (c # l) # ls))"

text \<open>\<open>ostr << t\<close> for an integer (\<open>std::time_t\<close>): its decimal rendering.\<close>

fun digits_of :: "nat \<Rightarrow> string" where
  "digits_of n = (if n < 10 then [char_of (48 + n)]
     else digits_of (n div 10) @ [char_of (48 + n mod 10)])"

declare digits_of.simps [simp del]

definition show_int :: "int \<Rightarrow> string" where
  "show_int i = (if i < 0 then CHR ''-'' # digits_of (nat (- i)) else digits_of (nat i))"

section \<open>Regular expressions: the fragment of boost::regex the source uses\<close>

text \<open>
  The four patterns of the source use literals, character classes, greedy and lazy
  repetition of a class, alternation, an optional group and the anchors. boost::regex
  in its default (Perl) syntax finds the leftmost match and, at that position, the
  first match in backtracking order: the left alternative before the right one, a
  greedy repetition longest first, a lazy one shortest first.
\<close>

datatype cls = OneOf string | NoneOf string | Space | Word | AnyChar

fun in_cls :: "cls \<Rightarrow> char \<Rightarrow> bool" where
  "in_cls (OneOf cs) c = (c \<in> set cs)"
| "in_cls (NoneOf cs) c = (c \<notin> set cs)"
| "in_cls Space c = is_space c"
| "in_cls Word c = (let n = (of_char c :: nat) in
     (48 \<le> n \<and> n \<le> 57) \<or> (65 \<le> n \<and> n \<le> 90) \<or> (97 \<le> n \<and> n \<le> 122) \<or> n = 95)"
| "in_cls AnyChar c = True"

datatype regex =
    Lit string
  | Cls cls
  | Star cls
  | Plus cls
  | LazyStar cls
  | Seq regex regex
  | Alt regex regex
  | Opt regex
  | Bol
  | Eol

text \<open>
  A position in the subject is the character before it (if any) and the text after it.
  Each matcher returns the positions at which a match of the expression can end, in
  backtracking order; the head of the list is the match boost::regex reports.
\<close>

type_synonym pos = "char option \<times> string"

fun lit :: "string \<Rightarrow> pos \<Rightarrow> pos list" where
  "lit [] (p, s) = [(p, s)]"
| "lit (l # ls) (p, []) = []"
| "lit (l # ls) (p, c # cs) = (if l = c then lit ls (Some c, cs) else [])"

fun star_greedy :: "cls \<Rightarrow> pos \<Rightarrow> pos list" where
  "star_greedy k (p, []) = [(p, [])]"
| "star_greedy k (p, c # cs) =
     (if in_cls k c then star_greedy k (Some c, cs) else []) @ [(p, c # cs)]"

fun star_lazy :: "cls \<Rightarrow> pos \<Rightarrow> pos list" where
  "star_lazy k (p, []) = [(p, [])]"
| "star_lazy k (p, c # cs) =
     (p, c # cs) # (if in_cls k c then star_lazy k (Some c, cs) else [])"

definition is_separator :: "char \<Rightarrow> bool" where
  "is_separator c \<longleftrightarrow> c = CHR 0x0A \<or> c = CHR 0x0D \<or> c = CHR 0x0C"

text \<open>
  \<open>^\<close> matches at the start of the subject and after a line separator, \<open>$\<close> at the end
  of the subject and before a line separator; neither matches between CR and LF.
\<close>

fun at_bol :: "pos \<Rightarrow> bool" where
  "at_bol (None, s) = True"
| "at_bol (Some p, []) = is_separator p"
| "at_bol (Some p, c # cs) = (is_separator p \<and> \<not> (p = CHR 0x0D \<and> c = CHR 0x0A))"

fun at_eol :: "pos \<Rightarrow> bool" where
  "at_eol (p, []) = True"
| "at_eol (p, c # cs) = (is_separator c \<and> \<not> (p = Some (CHR 0x0D) \<and> c = CHR 0x0A))"

primrec rmatch :: "regex \<Rightarrow> pos \<Rightarrow> pos list" where
  "rmatch (Lit l) x = lit l x"
| "rmatch (Cls k) x =
     (case snd x of [] \<Rightarrow> [] | c # cs \<Rightarrow> if in_cls k c then [(Some c, cs)] else [])"
| "rmatch (Star k) x = star_greedy k x"
| "rmatch (Plus k) x =
     (case snd x of [] \<Rightarrow> [] | c # cs \<Rightarrow> if in_cls k c then star_greedy k (Some c, cs) else [])"
| "rmatch (LazyStar k) x = star_lazy k x"
| "rmatch (Seq a b) x = concat (map (rmatch b) (rmatch a x))"
| "rmatch (Alt a b) x = rmatch a x @ rmatch b x"
| "rmatch (Opt a) x = rmatch a x @ [x]"
| "rmatch Bol x = (if at_bol x then [x] else [])"
| "rmatch Eol x = (if at_eol x then [x] else [])"

text \<open>\<open>boost::regex_search\<close>: is there a match starting anywhere in the subject.\<close>

fun regex_search_from :: "regex \<Rightarrow> char option \<Rightarrow> string \<Rightarrow> bool" where
  "regex_search_from r p [] = (rmatch r (p, []) \<noteq> [])"
| "regex_search_from r p (c # cs) =
     (rmatch r (p, c # cs) \<noteq> [] \<or> regex_search_from r (Some c) cs)"

definition regex_search :: "string \<Rightarrow> regex \<Rightarrow> bool" where
  "regex_search s r = regex_search_from r None s"

text \<open>
  \<open>boost::sregex_token_iterator(begin, end, re, 0)\<close>: the successive non-overlapping
  matches, each search starting where the previous match ended. The counter is the
  number of characters still covered by the previous match. (An empty match yields an
  empty token and the search moves on by one character; none of the patterns of the
  source matches the empty string.)
\<close>

fun regex_tokens_from :: "regex \<Rightarrow> nat \<Rightarrow> char option \<Rightarrow> string \<Rightarrow> string list" where
  "regex_tokens_from r k p [] = (if k = 0 \<and> rmatch r (p, []) \<noteq> [] then [[]] else [])"
| "regex_tokens_from r (Suc k) p (c # cs) = regex_tokens_from r k (Some c) cs"
| "regex_tokens_from r 0 p (c # cs) =
     (case rmatch r (p, c # cs) of
        [] \<Rightarrow> regex_tokens_from r 0 (Some c) cs
      | (q, rest) # alternatives \<Rightarrow>
          (let n = length (c # cs) - length rest
           in take n (c # cs) # regex_tokens_from r (n - 1) (Some c) cs))"

definition regex_tokens :: "string \<Rightarrow> regex \<Rightarrow> string list" where
  "regex_tokens s r = regex_tokens_from r 0 None s"

fun seqs :: "regex list \<Rightarrow> regex" where
  "seqs [] = Lit []"
| "seqs [r] = r"
| "seqs (r # rs) = Seq r (seqs rs)"

text \<open>\<open>"#include\\s+<Rcpp11"\<close>\<close>

definition reRcpp11 :: regex where
  "reRcpp11 = seqs [Lit ''#include'', Plus Space, Lit ''<Rcpp11'']"

text \<open>\<open>"^\\s*//\\s*\\[\\[Rcpp::(\\w+)(\\(.*?\\))?\\]\\]\\s*$"\<close>\<close>

definition reAttribute :: regex where
  "reAttribute = seqs [Bol, Star Space, Lit ''//'', Star Space, Lit ''[[Rcpp::'', Plus Word,
     Opt (seqs [Lit ''('', LazyStar AnyChar, Lit '')'']), Lit '']]'', Star Space, Eol]"

text \<open>\<open>"#include\\s+<Rcpp"\<close>\<close>

definition reRcpp :: regex where
  "reRcpp = seqs [Lit ''#include'', Plus Space, Lit ''<Rcpp'']"

text \<open>\<open>"[ \\t]-(?:[IDif]|std)(?:\\\"[^\\\"]+\\\"|[^ ]+)"\<close>\<close>

definition reCompileArg :: regex where
  "reCompileArg = seqs [Cls (OneOf [CHR '' '', CHR 0x09]), Lit ''-'',
     Alt (Cls (OneOf ''IDif'')) (Lit ''std''),
     Alt (seqs [Lit [dquote], Plus (NoneOf [dquote]), Lit [dquote]]) (Plus (NoneOf '' ''))]"

section \<open>Paths\<close>

text \<open>
  \<open>core::FilePath\<close> (a wrapper of boost::filesystem, outside this file) is modelled as
  the list of the components of an absolute path. \<open>childPath\<close> completes a relative path
  against the directory, \<open>relativePath\<close> is empty unless the path lies strictly inside
  the given directory.
\<close>

type_synonym FilePath = "string list"

definition FilePath_of :: "string \<Rightarrow> FilePath" where
  "FilePath_of s = filter (\<lambda>c. c \<noteq> []) (split (\<lambda>c. c = CHR ''/'') s)"

definition childPath :: "FilePath \<Rightarrow> string \<Rightarrow> FilePath" where
  "childPath p c = p @ FilePath_of c"

definition parent :: "FilePath \<Rightarrow> FilePath" where
  "parent p = butlast p"

definition absolutePath :: "FilePath \<Rightarrow> string" where
  "absolutePath p = (if p = [] then ''/'' else concat (map (\<lambda>c. CHR ''/'' # c) p))"

definition filename :: "FilePath \<Rightarrow> string" where
  "filename p = (if p = [] then [] else last p)"

definition extension :: "FilePath \<Rightarrow> string" where
  "extension p = (let f = filename p in
     if f = ''.'' \<or> f = ''..'' \<or> CHR ''.'' \<notin> set f then []
     else CHR ''.'' # rev (takeWhile (\<lambda>c. c \<noteq> CHR ''.'') (rev f)))"

definition stem :: "FilePath \<Rightarrow> string" where
  "stem p = (let f = filename p in take (length f - length (extension p)) f)"

definition extensionLowerCase :: "FilePath \<Rightarrow> string" where
  "extensionLowerCase p = map to_lower (extension p)"

definition relativePath :: "FilePath \<Rightarrow> FilePath \<Rightarrow> string" where
  "relativePath p dir =
     (if strict_prefix dir p then drop 1 (absolutePath (drop (length dir) p)) else [])"

section \<open>The collaborators outside this file\<close>

text \<open>
  Everything the source obtains from other modules is a field of the world the call
  runs in: the project context, libclang, the R session, the module context and the
  platform layer. A call that can fail returns \<open>Inl\<close> of its error.
\<close>

datatype Error = Error string

type_synonym Options = "(string \<times> string) list"

record ProcessResult =
  stdOut :: string
  stdErr :: string
  exitStatus :: int

record ProcessOptions =
  workingDir :: "FilePath option"
  environment :: Options

record RPackageInfo =
  linkingTo :: string
  systemRequirements :: string

text \<open>\<open>projects::projectContext()\<close>\<close>

record ProjectContext =
  buildTargetPath :: FilePath
  buildType :: string
  directory :: FilePath

definition kBuildTypePackage :: string where
  "kBuildTypePackage = ''Package''"

text \<open>
  \<open>libclang::clang()\<close>. \<open>parseTranslationUnit\<close> tells whether a translation unit was
  built (not \<open>NULL\<close>), \<open>saveTranslationUnit\<close> gives the save error code.
\<close>

record LibClang =
  compileArgs :: "bool \<Rightarrow> string list"
  version :: string
  parseTranslationUnit :: "string \<Rightarrow> string list \<Rightarrow> bool"
  saveTranslationUnit :: "string \<Rightarrow> int"

definition CXSaveError_None :: int where
  "CXSaveError_None = 0"

text \<open>The R functions called through \<open>r::exec::RFunction\<close>.\<close>

record RExec =
  rs_packagePCH :: "string \<Rightarrow> Error + string"
  rs_includesForLinkingTo :: "string \<Rightarrow> Error + string list"
  rs_clangPCHPath :: "string \<Rightarrow> string \<Rightarrow> Error + string"

text \<open>\<open>session::module_context\<close>\<close>

record ModuleContext =
  rScriptPath :: "Error + FilePath"
  rBinDir :: "Error + FilePath"
  rCommand :: "FilePath \<Rightarrow> string"
  packratModeOn :: bool
  libPathsString :: string
  isPackageVersionInstalled :: "string \<Rightarrow> string \<Rightarrow> bool"
  userScratchPath :: FilePath
  tempFile :: "string \<Rightarrow> string \<Rightarrow> FilePath"

text \<open>
  The platform layer (\<open>core\<close>, \<open>core::system\<close>, \<open>core::r_util\<close>): the process environment,
  UUIDs, process execution, file contents and modification times, and whether a file
  operation fails.
\<close>

record Core =
  system_environment :: Options
  generateUuid :: string
  runProgram :: "string \<Rightarrow> string list \<Rightarrow> string \<Rightarrow> ProcessOptions \<Rightarrow> Error + ProcessResult"
  runCommand :: "string \<Rightarrow> ProcessOptions \<Rightarrow> Error + ProcessResult"
  readStringFromFile :: "FilePath \<Rightarrow> Error + string"
  readPackageInfo :: "FilePath \<Rightarrow> Error + RPackageInfo"
  lastWriteTime :: "FilePath \<Rightarrow> int"
  writeStringToFile :: "FilePath \<Rightarrow> string \<Rightarrow> Error option"
  remove :: "FilePath \<Rightarrow> Error option"
  removeIfExists :: "FilePath \<Rightarrow> Error option"
  ensureDirectory :: "FilePath \<Rightarrow> Error option"

record world =
  projectContext :: ProjectContext
  clang :: LibClang
  r_exec :: RExec
  module_context :: ModuleContext
  core :: Core

text \<open>
  The state a call changes: the members of \<open>RCompilationDatabase\<close> (the member
  \<open>packageSrcArgs_\<close> of the source is the field \<open>packageSrcArgs_m\<close>, and so on), the set
  of paths that exist in the file system, and the processes started so far.
\<close>

datatype spawn = RunProgram string "string list" | RunCommand string

record state =
  packageBuildFileHash_m :: string
  packageSrcArgs_m :: "string list"
  packagePCH_m :: string
  sourceCppHashes_m :: "string \<rightharpoonup> string"
  sourceCppArgsMap_m :: "string \<rightharpoonup> string list"
  fs :: "FilePath set"
  processes :: "spawn list"

text \<open>\<open>core::system::setenv(&env, name, value)\<close>: replace the variable or add it.\<close>

definition setenv :: "Options \<Rightarrow> string \<Rightarrow> string \<Rightarrow> Options" where
  "setenv env name v =
     (if name \<in> fst ` set env then map (\<lambda>(n, x). if n = name then (n, v) else (n, x)) env
      else env @ [(name, v)])"

section \<open>The parsing functions of the anonymous namespace\<close>

text \<open>
  \<open>extractCompileArgs\<close>: each match of the pattern, trimmed, without its double quotes.
\<close>

definition extractCompileArgs :: "string \<Rightarrow> string list" where
  "extractCompileArgs line = map (\<lambda>tok. remove_quotes (trim_all tok)) (regex_tokens line reCompileArg)"

text \<open>\<open>extractStdArg\<close>: the loop returns at the first argument that starts with \<open>-std=\<close>.\<close>

fun extractStdArg :: "string list \<Rightarrow> string" where
  "extractStdArg [] = []"
| "extractStdArg (arg # args) = (if starts_with arg ''-std='' then arg else extractStdArg args)"

text \<open>
  \<open>sourceCppHash\<close>: empty when the file cannot be read or includes Rcpp11; otherwise
  the dependency attributes, each trimmed, in document order; otherwise \<open>Rcpp\<close> when the
  file includes an Rcpp header; otherwise empty.
\<close>

definition sourceCppHash :: "world \<Rightarrow> FilePath \<Rightarrow> string" where
  "sourceCppHash w srcPath =
     (case readStringFromFile (core w) srcPath of
        Inl error \<Rightarrow> []
      | Inr contents \<Rightarrow>
          if regex_search contents reRcpp11 then []
          else (let hash = foldl (\<lambda>hash attrib. hash @ trim_all attrib) []
                             (regex_tokens contents reAttribute)
                in if hash = []
                   then (if regex_search contents reRcpp then ''Rcpp'' else hash)
                   else hash))"

definition buildFileHash :: "world \<Rightarrow> FilePath set \<Rightarrow> FilePath \<Rightarrow> string" where
  "buildFileHash w files filePath =
     (if filePath \<in> files then show_int (lastWriteTime (core w) filePath) else [])"

definition packageBuildFileHash :: "world \<Rightarrow> FilePath set \<Rightarrow> string" where
  "packageBuildFileHash w files =
     (let buildPath = buildTargetPath (projectContext w);
          ostr = buildFileHash w files (childPath buildPath ''DESCRIPTION'');
          srcPath = childPath buildPath ''src''
      in if srcPath \<in> files
         then ostr @ buildFileHash w files (childPath srcPath ''Makevars'')
                   @ buildFileHash w files (childPath srcPath ''Makevars.win'')
         else ostr)"

text \<open>\<open>compilationEnvironment\<close>, outside Windows: the environment of the process.\<close>

definition compilationEnvironment :: "world \<Rightarrow> Options" where
  "compilationEnvironment w = system_environment (core w)"

text \<open>
  \<open>parseCompilationResults\<close>: the loop over the lines appends the arguments of every
  line that contains \<open>-c <filename> -o <stem>\<close>.
\<close>

definition parseCompilationResults :: "FilePath \<Rightarrow> string \<Rightarrow> string list" where
  "parseCompilationResults srcFile results =
     (let lines = split (is_any_of [CHR 0x0D, CHR 0x0A]) results;
          compile = ''-c '' @ filename srcFile @ '' -o '' @ stem srcFile
      in foldl (\<lambda>compileArgs line.
                  if contains line compile then compileArgs @ extractCompileArgs line
                  else compileArgs) [] lines)"

text \<open>The two R calls log an error and return the value they were initialised with.\<close>

definition packagePCH :: "world \<Rightarrow> string \<Rightarrow> string" where
  "packagePCH w linkingTo' =
     (case rs_packagePCH (r_exec w) linkingTo' of Inl error \<Rightarrow> [] | Inr pch \<Rightarrow> pch)"

definition includesForLinkingTo :: "world \<Rightarrow> string \<Rightarrow> string list" where
  "includesForLinkingTo w linkingTo' =
     (case rs_includesForLinkingTo (r_exec w) linkingTo' of
        Inl error \<Rightarrow> [] | Inr includes \<Rightarrow> includes)"

section \<open>The methods of RCompilationDatabase\<close>

text \<open>
  \<open>executeSourceCpp\<close>: runs \<open>Rscript --slave ... -e Rcpp::sourceCpp('file', showOutput = TRUE...)\<close>.
  No process is started when the path of Rscript cannot be determined.
\<close>

definition executeSourceCpp ::
  "world \<Rightarrow> Options \<Rightarrow> FilePath \<Rightarrow> state \<Rightarrow> (Error + ProcessResult) \<times> state" where
  "executeSourceCpp w env srcPath s =
     (case rScriptPath (module_context w) of
        Inl error \<Rightarrow> (Inl error, s)
      | Inr rScript \<Rightarrow>
          (let packrat = packratModeOn (module_context w);
               libPaths = libPathsString (module_context w);
               dir = (if packrat then Some (directory (projectContext w)) else None);
               args = (if packrat then [''--slave'', ''--no-save'', ''--no-restore'']
                       else [''--slave'', ''--vanilla'']);
               env1 = (if \<not> packrat \<and> libPaths \<noteq> [] then setenv env ''R_LIBS'' libPaths else env);
               newRcpp = isPackageVersionInstalled (module_context w) ''Rcpp'' ''0.11.3'';
               extraParams = (if newRcpp then '', dryRun = TRUE'' else []);
               env2 = (if newRcpp then env1 else setenv env1 ''MAKE'' ''make --dry-run'');
               options = \<lparr>workingDir = dir, environment = env2\<rparr>;
               args1 = args @ [''-e'',
                  ''Rcpp::sourceCpp('' @ [squote] @ absolutePath srcPath @ [squote]
                    @ '', showOutput = TRUE'' @ extraParams @ '')''];
               program = absolutePath rScript
           in (runProgram (core w) program args1 [] options,
               s\<lparr>processes := processes s @ [RunProgram program args1]\<rparr>)))"

text \<open>
  \<open>executeRCmdSHLIB\<close>: runs \<open>R CMD SHLIB --dry-run <filename>\<close> in the directory of the
  file. No process is started when the R bin directory cannot be determined.
\<close>

definition executeRCmdSHLIB ::
  "world \<Rightarrow> Options \<Rightarrow> FilePath \<Rightarrow> state \<Rightarrow> (Error + ProcessResult) \<times> state" where
  "executeRCmdSHLIB w env srcPath s =
     (case rBinDir (module_context w) of
        Inl error \<Rightarrow> (Inl error, s)
      | Inr binDir \<Rightarrow>
          (let rCmd = rCommand (module_context w) binDir @ '' SHLIB'' @ '' --dry-run''
                        @ '' '' @ filename srcPath;
               options = \<lparr>workingDir = Some (parent srcPath), environment = env\<rparr>
           in (runCommand (core w) rCmd options,
               s\<lparr>processes := processes s @ [RunCommand rCmd]\<rparr>)))"

text \<open>
  \<open>argsForSourceCpp\<close>: the clang arguments followed by the parsed ones; the empty list
  when the process could not be run or exited with a failure.
\<close>

definition argsForSourceCpp :: "world \<Rightarrow> FilePath \<Rightarrow> state \<Rightarrow> string list \<times> state" where
  "argsForSourceCpp w srcFile s =
     (let args = compileArgs (clang w) True;
          env = compilationEnvironment w;
          (res, s1) = executeSourceCpp w env srcFile s
      in case res of
           Inl error \<Rightarrow> ([], s1)
         | Inr result \<Rightarrow>
             if exitStatus result \<noteq> 0 then ([], s1)
             else (args @ parseCompilationResults srcFile (stdOut result), s1))"

text \<open>
  \<open>argsForRCmdSHLIB\<close>: writes the temporary source file, runs the dry run, removes the
  file again and parses the output.
\<close>

definition argsForRCmdSHLIB ::
  "world \<Rightarrow> Options \<Rightarrow> FilePath \<Rightarrow> state \<Rightarrow> string list \<times> state" where
  "argsForRCmdSHLIB w env tempSrcFile s =
     (case writeStringToFile (core w) tempSrcFile (''void foo() {}'' @ [CHR 0x0A]) of
        Some error \<Rightarrow> ([], s)
      | None \<Rightarrow>
          (let s1 = s\<lparr>fs := insert tempSrcFile (fs s)\<rparr>;
               (res, s2) = executeRCmdSHLIB w env tempSrcFile s1;
               s3 = (case remove (core w) tempSrcFile of
                       Some removeError \<Rightarrow> s2
                     | None \<Rightarrow> s2\<lparr>fs := fs s2 - {tempSrcFile}\<rparr>)
           in case res of
                Inl error \<Rightarrow> ([], s3)
              | Inr result \<Rightarrow>
                  if exitStatus result \<noteq> 0 then ([], s3)
                  else (parseCompilationResults tempSrcFile (stdOut result), s3)))"

text \<open>
  The path substitutions of \<open>updateForCurrentPackage\<close> (the body of its loop and the
  loop): first \<open>-I..\<close>, then \<open>-I.\<close>, each at its leftmost occurrence.
\<close>

definition substitutePaths :: "FilePath \<Rightarrow> string \<Rightarrow> string" where
  "substitutePaths srcDir arg =
     replace_first (replace_first arg ''-I..'' (''-I'' @ absolutePath (parent srcDir)))
       ''-I.'' (''-I'' @ absolutePath srcDir)"

definition pathSubstitutions :: "FilePath \<Rightarrow> string list \<Rightarrow> string list \<Rightarrow> string list" where
  "pathSubstitutions srcDir args compileArgs' =
     foldl (\<lambda>args arg. args @ [substitutePaths srcDir arg]) args compileArgs'"

definition updateForCurrentPackage :: "world \<Rightarrow> state \<Rightarrow> state" where
  "updateForCurrentPackage w s =
     (let buildFileHash' = packageBuildFileHash w (fs s)
      in if buildFileHash' = packageBuildFileHash_m s then s
         else
          (let args = compileArgs (clang w) True;
               pkgPath = buildTargetPath (projectContext w)
           in case readPackageInfo (core w) pkgPath of
                Inl error \<Rightarrow> s
              | Inr pkgInfo \<Rightarrow>
                 (let args1 = (if linkingTo pkgInfo \<noteq> []
                               then args @ includesForLinkingTo w (linkingTo pkgInfo)
                               else args);
                      env = compilationEnvironment w;
                      env1 = (if icontains (systemRequirements pkgInfo) ''C++11''
                              then env @ [(''USE_CXX1X'', ''1'')] else env);
                      srcDir = childPath pkgPath ''src'';
                      tempSrcFile = childPath srcDir (generateUuid (core w) @ ''.cpp'');
                      (compileArgs', s1) = argsForRCmdSHLIB w env1 tempSrcFile s
                  in if compileArgs' \<noteq> []
                     then s1\<lparr>packageSrcArgs_m := pathSubstitutions srcDir args1 compileArgs',
                             packagePCH_m := packagePCH w (linkingTo pkgInfo),
                             packageBuildFileHash_m := buildFileHash'\<rparr>
                     else s1)))"

definition updateForSourceCpp :: "world \<Rightarrow> FilePath \<Rightarrow> state \<Rightarrow> state" where
  "updateForSourceCpp w srcFile s =
     (let hash = sourceCppHash w srcFile;
          filename' = absolutePath srcFile
      in if sourceCppHashes_m s filename' = Some hash then s
         else if hash = [] then s
         else (let (args, s1) = argsForSourceCpp w srcFile s
               in if args \<noteq> []
                  then s1\<lparr>sourceCppArgsMap_m := (sourceCppArgsMap_m s1)(filename' \<mapsto> args),
                          sourceCppHashes_m := (sourceCppHashes_m s1)(filename' \<mapsto> hash)\<rparr>
                  else s1))"

text \<open>
  \<open>precompiledHeaderArgs\<close>, second half ("now create the PCH if we need to"): given the
  platform directory, build the precompiled header unless it exists, and return the
  \<open>-include-pch\<close> arguments. A save that returns \<open>CXSaveError_None\<close> has written the file.
\<close>

definition createPCH ::
  "world \<Rightarrow> string \<Rightarrow> string \<Rightarrow> FilePath \<Rightarrow> state \<Rightarrow> string list \<times> state" where
  "createPCH w pkgName stdArg platformPath s =
     (let pchPath = childPath platformPath (pkgName @ stdArg @ ''.pch'')
      in if pchPath \<notin> fs s then
           (let cppPath = childPath platformPath (pkgName @ stdArg @ ''.cpp'');
                contents = ''#include <'' @ pkgName @ ''.h>'' @ [CHR 0x0A]
            in case writeStringToFile (core w) cppPath contents of
                 Some error \<Rightarrow> ([], s)
               | None \<Rightarrow>
                  (let s1 = s\<lparr>fs := insert cppPath (fs s)\<rparr>;
                       args = compileArgs (clang w) True;
                       args1 = (if stdArg \<noteq> [] then args @ [stdArg] else args);
                       env = compilationEnvironment w;
                       tempSrcFile = tempFile (module_context w) ''clang'' ''cpp'';
                       (cArgs, s2) = argsForRCmdSHLIB w env tempSrcFile s1;
                       args2 = args1 @ cArgs @ includesForLinkingTo w pkgName
                   in if \<not> parseTranslationUnit (clang w) (absolutePath cppPath) args2
                      then ([], s2)
                      else
                       (let ret = saveTranslationUnit (clang w) (absolutePath pchPath);
                            s3 = (if ret = CXSaveError_None
                                  then s2\<lparr>fs := insert pchPath (fs s2)\<rparr> else s2)
                        in ([''-include-pch'', absolutePath pchPath], s3))))
         else ([''-include-pch'', absolutePath pchPath], s))"

text \<open>
  \<open>precompiledHeaderArgs\<close>: when the platform directory does not exist, the root
  directory of the package is removed with everything below it and the platform
  directory is created with its parents.
\<close>

definition precompiledHeaderArgs ::
  "world \<Rightarrow> string \<Rightarrow> string \<Rightarrow> state \<Rightarrow> string list \<times> state" where
  "precompiledHeaderArgs w pkgName stdArg s =
     (let precompiledDir = childPath (userScratchPath (module_context w))
                             (''libclang/precompiled/'' @ pkgName);
          clangVersion = version (clang w)
      in case rs_clangPCHPath (r_exec w) pkgName clangVersion of
           Inl error \<Rightarrow> ([], s)
         | Inr platformDir \<Rightarrow>
            (let platformPath = childPath precompiledDir platformDir
             in if platformPath \<notin> fs s then
                  (case removeIfExists (core w) precompiledDir of
                     Some error \<Rightarrow> ([], s)
                   | None \<Rightarrow>
                      (let s1 = s\<lparr>fs := Set.filter (\<lambda>q. \<not> prefix precompiledDir q) (fs s)\<rparr>
                       in case ensureDirectory (core w) platformPath of
                            Some error \<Rightarrow> ([], s1)
                          | None \<Rightarrow>
                             createPCH w pkgName stdArg platformPath
                               (s1\<lparr>fs := fs s1 \<union> set (prefixes platformPath)\<rparr>)))
                else createPCH w pkgName stdArg platformPath s))"

text \<open>
  \<open>compileArgsForTranslationUnit\<close>, first half: the arguments and the package whose
  precompiled header applies, from the package cache for a file below the \<open>src\<close>
  directory of a package project, from the sourceCpp cache otherwise.
\<close>

definition cachedArgs :: "world \<Rightarrow> FilePath \<Rightarrow> state \<Rightarrow> (string list \<times> string) \<times> state" where
  "cachedArgs w filePath s =
     (let srcDirPath = childPath (buildTargetPath (projectContext w)) ''src''
      in if buildType (projectContext w) = kBuildTypePackage
            \<and> relativePath filePath srcDirPath \<noteq> []
         then (let s1 = updateForCurrentPackage w s
               in ((packageSrcArgs_m s1, packagePCH_m s1), s1))
         else (let s1 = updateForSourceCpp w filePath s
               in case sourceCppArgsMap_m s1 (absolutePath filePath) of
                    None \<Rightarrow> (([], []), s1)
                  | Some args \<Rightarrow> ((args, ''Rcpp''), s1)))"

definition compileArgsForTranslationUnit :: "world \<Rightarrow> string \<Rightarrow> state \<Rightarrow> string list \<times> state" where
  "compileArgsForTranslationUnit w filename' s =
     (let filePath = FilePath_of filename';
          ((args, packagePCH'), s1) = cachedArgs w filePath s
      in if args = [] then (args, s1)
         else if packagePCH' \<noteq> [] then
           (let ext = extensionLowerCase filePath;
                isCppFile = (ext = ''.cc'' \<or> ext = ''.cpp'')
            in if isCppFile then
                 (let stdArg = extractStdArg args;
                      (pchArgs, s2) = precompiledHeaderArgs w packagePCH' stdArg s1
                  in (args @ pchArgs, s2))
               else (args, s1))
         else (args, s1))"

section \<open>Sample worlds and states\<close>

text \<open>
  A package project in \<open>/home/u/pkg\<close> whose dry run reports one compilation line, a
  standalone file that includes \<open>Rcpp.h\<close>, and a database with empty caches.
\<close>

definition world0 :: world where
  "world0 = \<lparr>
     projectContext = \<lparr>buildTargetPath = [''home'', ''u'', ''pkg''], buildType = ''Package'',
       directory = [''home'', ''u'', ''pkg'']\<rparr>,
     clang = \<lparr>compileArgs = (\<lambda>isCpp. [''-I/clang/include'']), version = ''3.5'',
       parseTranslationUnit = (\<lambda>file args. True), saveTranslationUnit = (\<lambda>file. 0)\<rparr>,
     r_exec = \<lparr>rs_packagePCH = (\<lambda>l. Inr ''Rcpp''),
       rs_includesForLinkingTo = (\<lambda>l. Inr [''-I/lib/Rcpp/include'']),
       rs_clangPCHPath = (\<lambda>pkg v. Inr ''v1'')\<rparr>,
     module_context = \<lparr>rScriptPath = Inr [''usr'', ''bin'', ''Rscript''],
       rBinDir = Inr [''usr'', ''lib'', ''R'', ''bin''],
       rCommand = (\<lambda>d. absolutePath (childPath d ''R'') @ '' CMD''),
       packratModeOn = False, libPathsString = [],
       isPackageVersionInstalled = (\<lambda>pkg v. True),
       userScratchPath = [''home'', ''u'', ''.rstudio''],
       tempFile = (\<lambda>pre ext. [''tmp'', pre @ ''.'' @ ext])\<rparr>,
     core = \<lparr>system_environment = [], generateUuid = ''tmp'',
       runProgram = (\<lambda>prog args input opts.
         Inr \<lparr>stdOut = ''g++ -I/usr/share/R/include -DNDEBUG -c a.cpp -o a.o'', stdErr = [],
              exitStatus = 0\<rparr>),
       runCommand = (\<lambda>cmd opts.
         Inr \<lparr>stdOut = ''g++ -I../inst/include -fpic -c tmp.cpp -o tmp.o'', stdErr = [],
              exitStatus = 0\<rparr>),
       readStringFromFile = (\<lambda>p. Inr ''#include <Rcpp.h>''),
       readPackageInfo = (\<lambda>p. Inr \<lparr>linkingTo = ''Rcpp'', systemRequirements = []\<rparr>),
       lastWriteTime = (\<lambda>p. 100),
       writeStringToFile = (\<lambda>p contents. None), remove = (\<lambda>p. None),
       removeIfExists = (\<lambda>p. None), ensureDirectory = (\<lambda>p. None)\<rparr>\<rparr>"

definition state0 :: state where
  "state0 = \<lparr>packageBuildFileHash_m = [], packageSrcArgs_m = [], packagePCH_m = [],
     sourceCppHashes_m = Map.empty, sourceCppArgsMap_m = Map.empty,
     fs = {[''home'', ''u'', ''pkg'', ''DESCRIPTION''], [''home'', ''u'', ''pkg'', ''src'']},
     processes = []\<rparr>"

text \<open>The same world with another content for every file that is read.\<close>

definition world_with_contents :: "string \<Rightarrow> world" where
  "world_with_contents contents =
     world0\<lparr>core := (core world0)\<lparr>readStringFromFile := (\<lambda>p. Inr contents)\<rparr>\<rparr>"

text \<open>A dry run that exits with status 1.\<close>

definition world_exit1 :: world where
  "world_exit1 = world0\<lparr>core := (core world0)\<lparr>runCommand := (\<lambda>cmd opts.
     Inr \<lparr>stdOut = [], stdErr = ''make: *** No rule to make target'', exitStatus = 1\<rparr>)\<rparr>\<rparr>"

text \<open>Rscript cannot be started.\<close>

definition world_launch_error :: world where
  "world_launch_error = world0\<lparr>core := (core world0)\<lparr>runProgram := (\<lambda>prog args input opts.
     Inl (Error ''cannot start process''))\<rparr>\<rparr>"

text \<open>\<open>Rcpp::sourceCpp\<close> succeeds and prints no compilation line.\<close>

definition world_flagless :: world where
  "world_flagless = world0\<lparr>core := (core world0)\<lparr>runProgram := (\<lambda>prog args input opts.
     Inr \<lparr>stdOut = ''make: Nothing to be done'', stdErr = [], exitStatus = 0\<rparr>)\<rparr>\<rparr>"


text \<open>libclang parses the header and fails to save the translation unit.\<close>

definition world_save_fails :: world where
  "world_save_fails = world0\<lparr>clang := (clang world0)\<lparr>saveTranslationUnit := (\<lambda>file. 2)\<rparr>\<rparr>"

text \<open>
  A database that resolved \<open>/home/u/a.cpp\<close> when its fingerprint was \<open>Rcpp\<close>, one that
  did the same for \<open>/home/u/a.cxx\<close>, and one whose package and sourceCpp caches hold
  the results of an earlier state of the files.
\<close>

definition state_stale :: state where
  "state_stale = state0\<lparr>sourceCppHashes_m := [''/home/u/a.cpp'' \<mapsto> ''Rcpp''],
     sourceCppArgsMap_m := [''/home/u/a.cpp'' \<mapsto> [''-I/lib/Rcpp/include'']]\<rparr>"

definition state_cxx :: state where
  "state_cxx = state0\<lparr>sourceCppHashes_m := [''/home/u/a.cxx'' \<mapsto> ''Rcpp''],
     sourceCppArgsMap_m := [''/home/u/a.cxx'' \<mapsto> [''-I/lib/Rcpp/include'']]\<rparr>"

definition state_old :: state where
  "state_old = state0\<lparr>packageBuildFileHash_m := ''99'', packageSrcArgs_m := [''-I/old''],
     packagePCH_m := ''Rcpp'',
     sourceCppHashes_m := [''/home/u/a.cpp'' \<mapsto> ''// [[Rcpp::depends(BH)]]''],
     sourceCppArgsMap_m := [''/home/u/a.cpp'' \<mapsto> [''-I/old'']]\<rparr>"


section \<open>Predicates the properties are stated with\<close>














text \<open>
  The outcomes of \<open>R CMD SHLIB --dry-run\<close> that give no arguments: the temporary file
  cannot be written, the process cannot be started, it exits with a failure, or its
  output has no flag.
\<close>

definition dryRunFails :: "world \<Rightarrow> Options \<Rightarrow> FilePath \<Rightarrow> state \<Rightarrow> bool" where
  "dryRunFails w env tempSrcFile s \<longleftrightarrow>
     writeStringToFile (core w) tempSrcFile (''void foo() {}'' @ [CHR 0x0A]) \<noteq> None
   \<or> (case fst (executeRCmdSHLIB w env tempSrcFile s) of
        Inl error \<Rightarrow> True
      | Inr result \<Rightarrow> exitStatus result \<noteq> 0
          \<or> parseCompilationResults tempSrcFile (stdOut result) = [])"

text \<open>
  The environment and the temporary file \<open>updateForCurrentPackage\<close> passes to the dry
  run, and the failures of a package resolution: the package description cannot be
  read, or the dry run fails.
\<close>

definition packageEnvironment :: "world \<Rightarrow> RPackageInfo \<Rightarrow> Options" where
  "packageEnvironment w pkgInfo =
     (if icontains (systemRequirements pkgInfo) ''C++11''
      then compilationEnvironment w @ [(''USE_CXX1X'', ''1'')] else compilationEnvironment w)"

definition packageTempSrcFile :: "world \<Rightarrow> FilePath" where
  "packageTempSrcFile w =
     childPath (childPath (buildTargetPath (projectContext w)) ''src'')
       (generateUuid (core w) @ ''.cpp'')"

definition packageResolutionFails :: "world \<Rightarrow> state \<Rightarrow> bool" where
  "packageResolutionFails w s \<longleftrightarrow>
     (case readPackageInfo (core w) (buildTargetPath (projectContext w)) of
        Inl error \<Rightarrow> True
      | Inr pkgInfo \<Rightarrow> dryRunFails w (packageEnvironment w pkgInfo) (packageTempSrcFile w) s)"

text \<open>
  The failures of a sourceCpp resolution after which \<open>updateForSourceCpp\<close> stores
  nothing: the process cannot be started, it exits with a failure, or neither libclang
  nor the output gives an argument.
\<close>

definition sourceCppFails :: "world \<Rightarrow> FilePath \<Rightarrow> state \<Rightarrow> bool" where
  "sourceCppFails w srcFile s \<longleftrightarrow>
     (case fst (executeSourceCpp w (compilationEnvironment w) srcFile s) of
        Inl error \<Rightarrow> True
      | Inr result \<Rightarrow> exitStatus result \<noteq> 0
          \<or> (compileArgs (clang w) True = []
              \<and> parseCompilationResults srcFile (stdOut result) = []))"


section \<open>Properties of the regular expressions\<close>

lemma lit_append: "lit l (p, l @ rest) = [(if l = [] then p else Some (last l), rest)]"
  by (induction l arbitrary: p) auto

lemma star_greedy_mem:
  "\<forall>c\<in>set ws. in_cls k c \<Longrightarrow>
     (if ws = [] then p else Some (last ws), rest) \<in> set (star_greedy k (p, ws @ rest))"
proof (induction ws arbitrary: p)
  case Nil
  then show ?case by (cases rest) auto
next
  case (Cons c ws)
  then show ?case by (cases ws) auto
qed

lemma concat_map_nonempty: "x \<in> set xs \<Longrightarrow> f x \<noteq> [] \<Longrightarrow> concat (map f xs) \<noteq> []"
  by (induction xs) auto

lemma regex_search_from_append:
  "rmatch r (if pre = [] then p else Some (last pre), s) \<noteq> [] \<Longrightarrow>
     regex_search_from r p (pre @ s)"
proof (induction pre arbitrary: p)
  case Nil
  then show ?case by (cases s) auto
next
  case (Cons c pre)
  then show ?case by (cases pre) auto
qed

text \<open>An include directive with at least one space before the header name is matched.\<close>

lemma include_matches:
  assumes "ws \<noteq> []" and "\<forall>c\<in>set ws. is_space c"
  shows "rmatch (seqs [Lit ''#include'', Plus Space, Lit name])
           (p, ''#include'' @ ws @ name @ post) \<noteq> []"
proof -
  obtain c ws' where ws: "ws = c # ws'"
    using assms(1) by (cases ws) auto
  have sp: "is_space c" "\<forall>c\<in>set ws'. in_cls Space c"
    using assms(2) ws by auto
  have mem: "(if ws' = [] then Some c else Some (last ws'), name @ post)
      \<in> set (rmatch (Plus Space) (Some CHR ''e'', ws @ name @ post))"
    using star_greedy_mem[OF sp(2), of "Some c" "name @ post"] sp(1) ws by simp
  have "concat (map (rmatch (Lit name))
          (rmatch (Plus Space) (Some CHR ''e'', ws @ name @ post))) \<noteq> []"
    by (rule concat_map_nonempty[OF mem]) (simp add: lit_append)
  then show ?thesis
    by simp
qed

section \<open>The dependency fingerprint of a standalone file\<close>

text \<open>
  C8. A file whose content has an include of Rcpp11 (\<open>#include\<close>, at least one space
  character, \<open><Rcpp11\<close>) anywhere has the empty fingerprint, whatever stands before and
  after the directive: dependency attributes and includes of Rcpp change nothing.
\<close>

theorem sourceCppHash_Rcpp11_empty:
  assumes "readStringFromFile (core w) srcPath = Inr contents"
    and "contents = pre @ ''#include'' @ ws @ ''<Rcpp11'' @ post"
    and "ws \<noteq> []" and "\<forall>c\<in>set ws. is_space c"
  shows "sourceCppHash w srcPath = []"
proof -
  have "regex_search contents reRcpp11"
    unfolding regex_search_def reRcpp11_def assms(2)
    by (rule regex_search_from_append) (rule include_matches[OF assms(3,4)])
  then show ?thesis
    by (simp add: sourceCppHash_def assms(1))
qed

theorem sourceCppHash_Rcpp11_empty_witness:
  "sourceCppHash
     (world_with_contents (''// [[Rcpp::depends(RcppArmadillo)]]'' @ [CHR 0x0A]
        @ ''#include <Rcpp11>'' @ [CHR 0x0A] @ ''#include <Rcpp.h>''))
     [''home'', ''u'', ''a.cpp''] = []"
  by (rule sourceCppHash_Rcpp11_empty[where
        pre = "''// [[Rcpp::depends(RcppArmadillo)]]'' @ [CHR 0x0A]" and ws = "'' ''"
        and post = "''>'' @ [CHR 0x0A] @ ''#include <Rcpp.h>''"])
     (simp_all add: world_with_contents_def is_space_def)

section \<open>The language standard argument\<close>

lemma extractStdArg_none:
  "\<forall>a\<in>set args. \<not> prefix ''-std='' a \<Longrightarrow> extractStdArg args = []"
  by (induction args) (auto simp: starts_with_def)

lemma extractStdArg_first_occurrence:
  "\<forall>b\<in>set pre. \<not> prefix ''-std='' b \<Longrightarrow> prefix ''-std='' a \<Longrightarrow>
     extractStdArg (pre @ a # post) = a"
  by (induction pre) (auto simp: starts_with_def)

text \<open>
  C9. The standard argument of a list is its first element that starts with \<open>-std=\<close>,
  whatever follows that element (later \<open>-std=\<close> elements included), and the empty
  string when no element starts with \<open>-std=\<close>.
\<close>

theorem extractStdArg_first:
  "((\<forall>a\<in>set args. \<not> prefix ''-std='' a) \<longrightarrow> extractStdArg args = [])
   \<and> (\<forall>pre a post. args = pre @ a # post \<and> (\<forall>b\<in>set pre. \<not> prefix ''-std='' b)
          \<and> prefix ''-std='' a \<longrightarrow> extractStdArg args = a)"
  using extractStdArg_none extractStdArg_first_occurrence by blast

theorem extractStdArg_first_witness:
  "extractStdArg [''-I/usr/include'', ''-std=c++11'', ''-DNDEBUG'', ''-std=c++14''] = ''-std=c++11''
   \<and> extractStdArg [''-I/usr/include'', ''-DNDEBUG''] = []"
proof -
  have "extractStdArg ([''-I/usr/include''] @ ''-std=c++11'' # [''-DNDEBUG'', ''-std=c++14''])
          = ''-std=c++11''"
    using extractStdArg_first[of "[''-I/usr/include''] @ ''-std=c++11'' # [''-DNDEBUG'', ''-std=c++14'']"]
    by (simp del: append.simps)
  moreover have "extractStdArg [''-I/usr/include'', ''-DNDEBUG''] = []"
    using extractStdArg_first[of "[''-I/usr/include'', ''-DNDEBUG'']"] by simp
  ultimately show ?thesis by simp
qed

text \<open>The definitions a concrete run unfolds.\<close>

lemmas eval_defs = compileArgsForTranslationUnit_def cachedArgs_def updateForSourceCpp_def
  updateForCurrentPackage_def sourceCppHash_def world_with_contents_def world0_def state0_def
  FilePath_of_def childPath_def relativePath_def absolutePath_def kBuildTypePackage_def
  regex_search_def regex_tokens_def reRcpp11_def reRcpp_def reAttribute_def
  extensionLowerCase_def extension_def filename_def to_lower_def precompiledHeaderArgs_def
  createPCH_def argsForRCmdSHLIB_def executeRCmdSHLIB_def parseCompilationResults_def
  is_any_of_def stem_def parent_def compilationEnvironment_def includesForLinkingTo_def
  CXSaveError_None_def Let_def is_space_def trim_all_def trim_def starts_with_def
  extractCompileArgs_def reCompileArg_def dquote_def squote_def remove_quotes_def
  argsForSourceCpp_def executeSourceCpp_def packageBuildFileHash_def buildFileHash_def
  show_int_def digits_of.simps packagePCH_def pathSubstitutions_def substitutePaths_def
  icontains_def setenv_def

section \<open>The compile-line parser\<close>























































section \<open>The path substitutions of the package resolution\<close>


lemma contains_appendI: "contains s pat \<Longrightarrow> contains (pre @ s) pat"
  by (induction pre) auto









section \<open>What a call changes\<close>

lemma executeRCmdSHLIB_state:
  "snd (executeRCmdSHLIB w env p s) = s\<lparr>processes := processes (snd (executeRCmdSHLIB w env p s))\<rparr>"
  by (auto simp: executeRCmdSHLIB_def Let_def split: sum.splits)

lemma executeRCmdSHLIB_result_indep:
  "fst (executeRCmdSHLIB w env p s) = fst (executeRCmdSHLIB w env p s')"
  by (auto simp: executeRCmdSHLIB_def Let_def split: sum.splits)

lemma executeSourceCpp_state:
  "snd (executeSourceCpp w env p s) = s\<lparr>processes := processes (snd (executeSourceCpp w env p s))\<rparr>"
  by (auto simp: executeSourceCpp_def Let_def split: sum.splits)

lemma argsForRCmdSHLIB_state:
  "snd (argsForRCmdSHLIB w env p s) =
     s\<lparr>fs := fs (snd (argsForRCmdSHLIB w env p s)),
       processes := processes (snd (argsForRCmdSHLIB w env p s))\<rparr>
   \<and> fs (snd (argsForRCmdSHLIB w env p s)) \<subseteq> insert p (fs s)"
proof (cases "writeStringToFile (core w) p (''void foo() {}'' @ [CHR 0x0A])")
  case (Some e)
  then show ?thesis
    by (auto simp: argsForRCmdSHLIB_def)
next
  case None
  let ?s1 = "s\<lparr>fs := insert p (fs s)\<rparr>"
  obtain res s2 where r: "executeRCmdSHLIB w env p ?s1 = (res, s2)"
    by (cases "executeRCmdSHLIB w env p ?s1")
  have s2: "s2 = ?s1\<lparr>processes := processes s2\<rparr>"
    using executeRCmdSHLIB_state[of w env p ?s1] r by simp
  have e0: "s2 = s\<lparr>fs := insert p (fs s), processes := processes s2\<rparr>"
    by (subst s2) simp
  then have f: "fs s2 = insert p (fs s)" and e: "s2\<lparr>fs := G\<rparr> = s\<lparr>fs := G, processes := processes s2\<rparr>" for G
    by (metis state.select_convs(6) state.surjective state.update_convs(6,7), metis state.surjective state.update_convs(6,7))
  show ?thesis
    using None r f e e0
    by (auto simp: argsForRCmdSHLIB_def Let_def split: sum.splits option.splits)
qed

lemma argsForRCmdSHLIB_fails:
  "dryRunFails w env p s \<Longrightarrow> fst (argsForRCmdSHLIB w env p s) = []"
  unfolding dryRunFails_def argsForRCmdSHLIB_def
  using executeRCmdSHLIB_result_indep[of w env p s "s\<lparr>fs := insert p (fs s)\<rparr>"]
  by (cases "executeRCmdSHLIB w env p (s\<lparr>fs := insert p (fs s)\<rparr>)")
     (auto simp: Let_def split: sum.splits option.splits)

lemma argsForRCmdSHLIB_succeeds:
  "\<not> dryRunFails w env p s \<Longrightarrow> fst (argsForRCmdSHLIB w env p s) \<noteq> []
     \<and> (\<exists>cmd. processes (snd (argsForRCmdSHLIB w env p s)) = processes s @ [RunCommand cmd])"
  unfolding dryRunFails_def argsForRCmdSHLIB_def
  using executeRCmdSHLIB_result_indep[of w env p s "s\<lparr>fs := insert p (fs s)\<rparr>"]
  by (cases "executeRCmdSHLIB w env p (s\<lparr>fs := insert p (fs s)\<rparr>)")
     (auto simp: Let_def executeRCmdSHLIB_def split: sum.splits option.splits)

lemma updateForCurrentPackage_failure:
  assumes "packageResolutionFails w s"
  shows "packageBuildFileHash_m (updateForCurrentPackage w s) = packageBuildFileHash_m s
    \<and> packageSrcArgs_m (updateForCurrentPackage w s) = packageSrcArgs_m s
    \<and> packagePCH_m (updateForCurrentPackage w s) = packagePCH_m s"
proof (cases "readPackageInfo (core w) (buildTargetPath (projectContext w))")
  case (Inl e)
  then show ?thesis by (simp add: updateForCurrentPackage_def Let_def)
next
  case (Inr pkgInfo)
  let ?env = "packageEnvironment w pkgInfo" and ?tmp = "packageTempSrcFile w"
  from assms Inr have "dryRunFails w ?env ?tmp s" by (simp add: packageResolutionFails_def)
  then have e: "fst (argsForRCmdSHLIB w ?env ?tmp s) = []" by (rule argsForRCmdSHLIB_fails)
  obtain F ps where st: "snd (argsForRCmdSHLIB w ?env ?tmp s) = s\<lparr>fs := F, processes := ps\<rparr>"
    using argsForRCmdSHLIB_state by blast
  show ?thesis
    using Inr e st
    by (cases "argsForRCmdSHLIB w ?env ?tmp s")
       (auto simp: updateForCurrentPackage_def Let_def packageEnvironment_def packageTempSrcFile_def)
qed

lemma updateForSourceCpp_failure:
  assumes "sourceCppFails w srcFile s"
  shows "sourceCppHashes_m (updateForSourceCpp w srcFile s) = sourceCppHashes_m s
    \<and> sourceCppArgsMap_m (updateForSourceCpp w srcFile s) = sourceCppArgsMap_m s"
proof -
  let ?env = "compilationEnvironment w"
  obtain ps where st: "snd (executeSourceCpp w ?env srcFile s) = s\<lparr>processes := ps\<rparr>"
    using executeSourceCpp_state by blast
  have "fst (argsForSourceCpp w srcFile s) = [] \<and> snd (argsForSourceCpp w srcFile s) = s\<lparr>processes := ps\<rparr>"
    using assms st unfolding sourceCppFails_def argsForSourceCpp_def
    by (cases "executeSourceCpp w ?env srcFile s") (auto simp: Let_def split: sum.splits)
  then show ?thesis
    by (cases "argsForSourceCpp w srcFile s") (auto simp: updateForSourceCpp_def Let_def)
qed

lemma cache_hit: "packageBuildFileHash w (fs s) = packageBuildFileHash_m s \<Longrightarrow> updateForCurrentPackage w s = s"
  by (simp add: updateForCurrentPackage_def Let_def)







section \<open>Failed resolutions and the caches\<close>

text \<open>
  C4, as the specification states it, fails for a sourceCpp resolution whose output has
  no flag: the process succeeds, the parser finds nothing, and the cache entry of the
  file is replaced by the arguments of libclang alone.
\<close>

theorem flagless_sourceCpp_replaces_entry:
  "fst (executeSourceCpp world_flagless (compilationEnvironment world_flagless)
          [''home'', ''u'', ''a.cpp''] state_old)
     = Inr \<lparr>stdOut = ''make: Nothing to be done'', stdErr = [], exitStatus = 0\<rparr>
   \<and> parseCompilationResults [''home'', ''u'', ''a.cpp''] ''make: Nothing to be done'' = []
   \<and> sourceCppArgsMap_m state_old ''/home/u/a.cpp'' = Some [''-I/old'']
   \<and> sourceCppArgsMap_m (updateForSourceCpp world_flagless [''home'', ''u'', ''a.cpp''] state_old)
         ''/home/u/a.cpp'' = Some [''-I/clang/include'']"
  by (simp add: eval_defs world_flagless_def state_old_def)

text \<open>
  C4, amended. When the package resolution fails (the package description cannot be
  read, the temporary file cannot be written, the process cannot be started or exits
  with a failure, or its output has no flag), the fingerprint, the arguments and the
  dependency name of the package cache are what they were, and a file of the package
  gets the arguments cached before. When the sourceCpp resolution fails (the process
  cannot be started or exits with a failure, or neither libclang nor the output gives
  an argument), the two sourceCpp maps are what they were, and a standalone file gets
  the arguments cached for it before, if any.
\<close>

theorem failed_resolution_keeps_cache:
  "(packageResolutionFails w s \<longrightarrow>
      packageBuildFileHash_m (updateForCurrentPackage w s) = packageBuildFileHash_m s
    \<and> packageSrcArgs_m (updateForCurrentPackage w s) = packageSrcArgs_m s
    \<and> packagePCH_m (updateForCurrentPackage w s) = packagePCH_m s
    \<and> (buildType (projectContext w) = kBuildTypePackage
         \<and> relativePath filePath (childPath (buildTargetPath (projectContext w)) ''src'') \<noteq> []
       \<longrightarrow> fst (fst (cachedArgs w filePath s)) = packageSrcArgs_m s))
   \<and> (sourceCppFails w filePath s \<longrightarrow>
      sourceCppHashes_m (updateForSourceCpp w filePath s) = sourceCppHashes_m s
    \<and> sourceCppArgsMap_m (updateForSourceCpp w filePath s) = sourceCppArgsMap_m s
    \<and> (\<not> (buildType (projectContext w) = kBuildTypePackage
         \<and> relativePath filePath (childPath (buildTargetPath (projectContext w)) ''src'') \<noteq> [])
       \<longrightarrow> fst (fst (cachedArgs w filePath s)) =
             (case sourceCppArgsMap_m s (absolutePath filePath) of
                None \<Rightarrow> [] | Some args \<Rightarrow> args)))"
proof -
  have a: "packageResolutionFails w s \<longrightarrow>
      packageBuildFileHash_m (updateForCurrentPackage w s) = packageBuildFileHash_m s
    \<and> packageSrcArgs_m (updateForCurrentPackage w s) = packageSrcArgs_m s
    \<and> packagePCH_m (updateForCurrentPackage w s) = packagePCH_m s
    \<and> (buildType (projectContext w) = kBuildTypePackage
         \<and> relativePath filePath (childPath (buildTargetPath (projectContext w)) ''src'') \<noteq> []
       \<longrightarrow> fst (fst (cachedArgs w filePath s)) = packageSrcArgs_m s)"
    using updateForCurrentPackage_failure[of w s] by (simp add: cachedArgs_def Let_def)
  have b: "sourceCppFails w filePath s \<longrightarrow>
      sourceCppHashes_m (updateForSourceCpp w filePath s) = sourceCppHashes_m s
    \<and> sourceCppArgsMap_m (updateForSourceCpp w filePath s) = sourceCppArgsMap_m s
    \<and> (\<not> (buildType (projectContext w) = kBuildTypePackage
         \<and> relativePath filePath (childPath (buildTargetPath (projectContext w)) ''src'') \<noteq> [])
       \<longrightarrow> fst (fst (cachedArgs w filePath s)) =
             (case sourceCppArgsMap_m s (absolutePath filePath) of
                None \<Rightarrow> [] | Some args \<Rightarrow> args))"
    using updateForSourceCpp_failure[of w filePath s]
    by (auto simp: cachedArgs_def Let_def split: option.splits)
  from a b show ?thesis by blast
qed

theorem failed_resolution_keeps_cache_witness:
  "packageBuildFileHash_m (updateForCurrentPackage world_exit1 state_old) = ''99''
   \<and> packageSrcArgs_m (updateForCurrentPackage world_exit1 state_old) = [''-I/old'']
   \<and> packagePCH_m (updateForCurrentPackage world_exit1 state_old) = ''Rcpp''
   \<and> fst (fst (cachedArgs world_exit1 [''home'', ''u'', ''pkg'', ''src'', ''foo.cpp''] state_old))
       = [''-I/old'']
   \<and> sourceCppArgsMap_m (updateForSourceCpp world_launch_error [''home'', ''u'', ''a.cpp''] state_old)
         ''/home/u/a.cpp'' = Some [''-I/old'']
   \<and> fst (fst (cachedArgs world_launch_error [''home'', ''u'', ''a.cpp''] state_old)) = [''-I/old'']"
proof -
  let ?pkgFile = "[''home'', ''u'', ''pkg'', ''src'', ''foo.cpp'']"
  let ?file = "[''home'', ''u'', ''a.cpp'']"
  have pf: "packageResolutionFails world_exit1 state_old"
    by (simp add: packageResolutionFails_def dryRunFails_def packageTempSrcFile_def
          packageEnvironment_def world_exit1_def eval_defs)
  have inside: "buildType (projectContext world_exit1) = kBuildTypePackage
      \<and> relativePath ?pkgFile (childPath (buildTargetPath (projectContext world_exit1)) ''src'') \<noteq> []"
    by (simp add: world_exit1_def eval_defs)
  have sf: "sourceCppFails world_launch_error ?file state_old"
    by (simp add: sourceCppFails_def world_launch_error_def eval_defs)
  have outside: "\<not> (buildType (projectContext world_launch_error) = kBuildTypePackage
      \<and> relativePath ?file (childPath (buildTargetPath (projectContext world_launch_error)) ''src'') \<noteq> [])"
    by (simp add: world_launch_error_def eval_defs)
  note pkg = failed_resolution_keeps_cache
      [where w = world_exit1 and s = state_old and filePath = ?pkgFile,
       THEN conjunct1, THEN mp, OF pf]
  note src = failed_resolution_keeps_cache
      [where w = world_launch_error and s = state_old and filePath = ?file,
       THEN conjunct2, THEN mp, OF sf]
  from pkg inside src outside show ?thesis
    by (simp add: state_old_def state0_def absolutePath_def)
qed

section \<open>Resolving a package twice\<close>

text \<open>
  C7, as the specification states it, fails when the dry run fails: nothing is stored,
  so the second call, with the same files, starts the build tool again.
\<close>

theorem failed_package_resolve_runs_twice:
  "packageBuildFileHash world_exit1 (fs (updateForCurrentPackage world_exit1 state0))
     = packageBuildFileHash world_exit1 (fs state0)
   \<and> processes (updateForCurrentPackage world_exit1 (updateForCurrentPackage world_exit1 state0))
     = [RunCommand ''/usr/lib/R/bin/R CMD SHLIB --dry-run tmp.cpp'',
        RunCommand ''/usr/lib/R/bin/R CMD SHLIB --dry-run tmp.cpp'']"
  by (simp add: world_exit1_def eval_defs)

text \<open>
  C7, amended. When the first call finds the package cache stale and its resolution
  succeeds, and the fingerprint of the build files is the same at the second call, the
  second call changes nothing: it returns the arguments of the first call, and the two
  calls together have started exactly one process.
\<close>

theorem package_resolve_served_from_cache:
  assumes stale: "packageBuildFileHash w (fs s) \<noteq> packageBuildFileHash_m s"
    and ok: "\<not> packageResolutionFails w s"
    and s1: "s1 = updateForCurrentPackage w s"
    and same: "packageBuildFileHash w' (fs s1) = packageBuildFileHash w (fs s)"
    and s2: "s2 = updateForCurrentPackage w' s1"
  shows "packageSrcArgs_m s2 = packageSrcArgs_m s1 \<and> s2 = s1
     \<and> (\<exists>cmd. processes s2 = processes s @ [RunCommand cmd])"
proof -
  from ok obtain pkgInfo where
    info: "readPackageInfo (core w) (buildTargetPath (projectContext w)) = Inr pkgInfo"
    and run: "\<not> dryRunFails w (packageEnvironment w pkgInfo) (packageTempSrcFile w) s"
    by (auto simp: packageResolutionFails_def split: sum.splits)
  let ?r = "argsForRCmdSHLIB w (packageEnvironment w pkgInfo) (packageTempSrcFile w) s"
  from argsForRCmdSHLIB_succeeds[OF run] obtain cmd where
    ne: "fst ?r \<noteq> []" and pr: "processes (snd ?r) = processes s @ [RunCommand cmd]"
    by blast
  have h: "packageBuildFileHash_m s1 = packageBuildFileHash w (fs s)"
    and p: "processes s1 = processes s @ [RunCommand cmd]"
    using stale info ne pr unfolding s1
    by (cases ?r; simp add: updateForCurrentPackage_def Let_def packageEnvironment_def
          packageTempSrcFile_def)+
  from h same have "s2 = s1"
    unfolding s2 by (simp add: cache_hit)
  with p show ?thesis by simp
qed

theorem package_resolve_served_from_cache_witness:
  "packageSrcArgs_m (updateForCurrentPackage world0 (updateForCurrentPackage world0 state0))
     = [''-I/clang/include'', ''-I/lib/Rcpp/include'', ''-I/home/u/pkg/inst/include'', ''-fpic'']
   \<and> (\<exists>cmd. processes (updateForCurrentPackage world0 (updateForCurrentPackage world0 state0))
         = [RunCommand cmd])"
proof -
  let ?s1 = "updateForCurrentPackage world0 state0"
  have stale: "packageBuildFileHash world0 (fs state0) \<noteq> packageBuildFileHash_m state0"
    by (simp add: eval_defs)
  have ok: "\<not> packageResolutionFails world0 state0"
    by (simp add: packageResolutionFails_def dryRunFails_def packageTempSrcFile_def
          packageEnvironment_def eval_defs)
  have same: "packageBuildFileHash world0 (fs ?s1) = packageBuildFileHash world0 (fs state0)"
    by (simp add: eval_defs)
  have first: "packageSrcArgs_m ?s1
     = [''-I/clang/include'', ''-I/lib/Rcpp/include'', ''-I/home/u/pkg/inst/include'', ''-fpic'']"
    by (simp add: eval_defs)
  have empty: "processes state0 = []"
    by (simp add: state0_def)
  note twice = package_resolve_served_from_cache[OF stale ok refl same refl]
  from twice first have "packageSrcArgs_m (updateForCurrentPackage world0 ?s1)
     = [''-I/clang/include'', ''-I/lib/Rcpp/include'', ''-I/home/u/pkg/inst/include'', ''-fpic'']"
    by (elim conjE) (rule trans)
  moreover from twice empty have "\<exists>cmd. processes (updateForCurrentPackage world0 ?s1)
         = [RunCommand cmd]"
    by (elim conjE) (simp only: append_Nil)
  ultimately show ?thesis by (rule conjI)
qed

section \<open>The store of precompiled headers\<close>




section \<open>Precompiled headers and the extension of the file\<close>

text \<open>
  C10. With the arguments and the dependency name that the caches give for a file: when
  the lower-case extension of the file is neither \<open>.cc\<close> nor \<open>.cpp\<close>, the call returns
  these arguments and the state the cache lookup left, and the precompiled headers are
  not touched; when it is one of the two and both the arguments and the dependency name
  are non-empty, the arguments of \<open>precompiledHeaderArgs\<close> for that dependency and the
  standard argument of the list are appended.
\<close>

theorem pch_flags_only_for_cc_cpp:
  assumes "cachedArgs w (FilePath_of filename') s = ((args, pch), s1)"
  shows "(extensionLowerCase (FilePath_of filename') \<noteq> ''.cc''
            \<and> extensionLowerCase (FilePath_of filename') \<noteq> ''.cpp''
          \<longrightarrow> compileArgsForTranslationUnit w filename' s = (args, s1))
     \<and> ((extensionLowerCase (FilePath_of filename') = ''.cc''
            \<or> extensionLowerCase (FilePath_of filename') = ''.cpp'')
          \<and> args \<noteq> [] \<and> pch \<noteq> []
          \<longrightarrow> compileArgsForTranslationUnit w filename' s =
                (args @ fst (precompiledHeaderArgs w pch (extractStdArg args) s1),
                 snd (precompiledHeaderArgs w pch (extractStdArg args) s1)))"
  using assms
  by (cases "precompiledHeaderArgs w pch (extractStdArg args) s1")
     (simp add: compileArgsForTranslationUnit_def Let_def)

theorem pch_flags_only_for_cc_cpp_witness:
  "compileArgsForTranslationUnit world0 ''/home/u/a.cxx'' state_cxx
     = ([''-I/lib/Rcpp/include''], state_cxx)
   \<and> fst (compileArgsForTranslationUnit world0 ''/home/u/a.cpp'' state_stale)
     = [''-I/lib/Rcpp/include'', ''-include-pch'',
        ''/home/u/.rstudio/libclang/precompiled/Rcpp/v1/Rcpp.pch'']"
proof -
  have cxx: "cachedArgs world0 (FilePath_of ''/home/u/a.cxx'') state_cxx
      = (([''-I/lib/Rcpp/include''], ''Rcpp''), state_cxx)"
    by (simp add: state_cxx_def eval_defs)
  have ext: "extensionLowerCase (FilePath_of ''/home/u/a.cxx'') \<noteq> ''.cc''
      \<and> extensionLowerCase (FilePath_of ''/home/u/a.cxx'') \<noteq> ''.cpp''"
    by (simp add: eval_defs)
  have a: "compileArgsForTranslationUnit world0 ''/home/u/a.cxx'' state_cxx
     = ([''-I/lib/Rcpp/include''], state_cxx)"
    by (rule pch_flags_only_for_cc_cpp[OF cxx, THEN conjunct1, THEN mp, OF ext])
  have cpp: "cachedArgs world0 (FilePath_of ''/home/u/a.cpp'') state_stale
      = (([''-I/lib/Rcpp/include''], ''Rcpp''), state_stale)"
    by (simp add: state_stale_def eval_defs)
  have ext': "(extensionLowerCase (FilePath_of ''/home/u/a.cpp'') = ''.cc''
            \<or> extensionLowerCase (FilePath_of ''/home/u/a.cpp'') = ''.cpp'')
      \<and> [''-I/lib/Rcpp/include''] \<noteq> [] \<and> ''Rcpp'' \<noteq> []"
    by (simp add: eval_defs)
  have std: "extractStdArg [''-I/lib/Rcpp/include''] = []"
    by (simp add: starts_with_def)
  have pch: "fst (precompiledHeaderArgs world0 ''Rcpp'' [] state_stale)
      = [''-include-pch'', ''/home/u/.rstudio/libclang/precompiled/Rcpp/v1/Rcpp.pch'']"
    by (simp add: state_stale_def eval_defs)
  have b: "fst (compileArgsForTranslationUnit world0 ''/home/u/a.cpp'' state_stale)
     = [''-I/lib/Rcpp/include'', ''-include-pch'',
        ''/home/u/.rstudio/libclang/precompiled/Rcpp/v1/Rcpp.pch'']"
    unfolding pch_flags_only_for_cc_cpp[OF cpp, THEN conjunct2, THEN mp, OF ext'] std
    by (simp add: pch)
  from a b show ?thesis by (rule conjI)
qed

section \<open>A standalone file whose fingerprint became empty\<close>

text \<open>
  Without an entry of its own, a standalone file with the empty fingerprint gets no
  arguments, and the call changes nothing: no process is started.
\<close>

lemma empty_fingerprint_without_entry:
  assumes "sourceCppHash w (FilePath_of filename') = []"
    and "sourceCppArgsMap_m s (absolutePath (FilePath_of filename')) = None"
    and "\<not> (buildType (projectContext w) = kBuildTypePackage
          \<and> relativePath (FilePath_of filename')
               (childPath (buildTargetPath (projectContext w)) ''src'') \<noteq> [])"
  shows "compileArgsForTranslationUnit w filename' s = ([], s)"
  using assms
  by (auto simp: compileArgsForTranslationUnit_def cachedArgs_def updateForSourceCpp_def Let_def)

text \<open>
  C1 fails on the code. \<open>/home/u/a.cpp\<close> was resolved when it included \<open>Rcpp.h\<close>; its
  content is now \<open>int main() { return 0; }\<close>, whose fingerprint is empty.
  \<open>updateForSourceCpp\<close> returns early and leaves the entry of the file in place, and
  \<open>compileArgsForTranslationUnit\<close> serves it: the call returns the arguments of the old
  entry with the arguments of the Rcpp precompiled header, and builds that header,
  which starts \<open>R CMD SHLIB\<close>.
\<close>

theorem stale_entry_served_for_empty_fingerprint:
  "sourceCppHash (world_with_contents ''int main() { return 0; }'')
       (FilePath_of ''/home/u/a.cpp'') = []
   \<and> fst (compileArgsForTranslationUnit (world_with_contents ''int main() { return 0; }'')
          ''/home/u/a.cpp'' state_stale)
     = [''-I/lib/Rcpp/include'', ''-include-pch'',
        ''/home/u/.rstudio/libclang/precompiled/Rcpp/v1/Rcpp.pch'']
   \<and> processes (snd (compileArgsForTranslationUnit
          (world_with_contents ''int main() { return 0; }'') ''/home/u/a.cpp'' state_stale))
     = [RunCommand ''/usr/lib/R/bin/R CMD SHLIB --dry-run clang.cpp'']"
  by (simp add: state_stale_def eval_defs)

section \<open>A precompiled header that cannot be saved\<close>

text \<open>
  When libclang cannot parse the header, \<open>precompiledHeaderArgs\<close> returns no arguments.
\<close>

lemma parse_failure_returns_no_args:
  assumes "childPath platformPath (pkgName @ stdArg @ ''.pch'') \<notin> fs s"
    and "\<forall>file args. \<not> parseTranslationUnit (clang w) file args"
  shows "fst (createPCH w pkgName stdArg platformPath s) = []"
  using assms
  by (cases "argsForRCmdSHLIB w (compilationEnvironment w)
        (tempFile (module_context w) ''clang'' ''cpp'')
        (s\<lparr>fs := insert (childPath platformPath (pkgName @ stdArg @ ''.cpp'')) (fs s)\<rparr>)")
     (auto simp: createPCH_def Let_def split: option.splits)

text \<open>
  C2 fails on the code. In a world where libclang parses the header and the save
  returns an error, the call logs the error and goes on: it returns the two
  \<open>-include-pch\<close> arguments although the file they name does not exist.
\<close>

theorem save_failure_returns_pch_flags:
  "fst (precompiledHeaderArgs world_save_fails ''Rcpp'' ''-std=c++11'' state0)
     = [''-include-pch'',
        ''/home/u/.rstudio/libclang/precompiled/Rcpp/v1/Rcpp-std=c++11.pch'']
   \<and> [''home'', ''u'', ''.rstudio'', ''libclang'', ''precompiled'', ''Rcpp'', ''v1'',
       ''Rcpp-std=c++11.pch'']
     \<notin> fs (snd (precompiledHeaderArgs world_save_fails ''Rcpp'' ''-std=c++11'' state0))"
  by (simp add: world_save_fails_def eval_defs)

end
